theory Spec2Isabelle
  imports Complex_Main "HOL-Library.Char_ord" "HOL-Library.List_Lexorder"
begin

section \<open>The condition block of \<^verbatim>\<open>backend/blocks/branching.py\<close>\<close>

text \<open>
  \<^verbatim>\<open>ConditionBlock.run\<close> pulls two operands out of \<^verbatim>\<open>input_object\<close> with the local
  helper \<^verbatim>\<open>get_value\<close>, compares them with one of six operators and yields the pair
  \<^verbatim>\<open>("result", ...)\<close>, \<^verbatim>\<open>("output", ...)\<close>. The block is a Python generator: its
  behaviour is the list of pairs it yields, or the exception that leaves it.
\<close>

subsection \<open>Values\<close>

text \<open>
  \<^verbatim>\<open>input_object\<close>, \<^verbatim>\<open>yes_value\<close> and \<^verbatim>\<open>no_value\<close> are typed \<^verbatim>\<open>Any\<close>; the block
  receives JSON-like data. A value is \<^verbatim>\<open>None\<close>, a \<^verbatim>\<open>bool\<close>, an unbounded \<^verbatim>\<open>int\<close>, a
  finite \<^verbatim>\<open>float\<close> (every finite float is a rational number, and Python compares
  ints and floats by their exact values; NaN and the infinities are left out), a
  \<^verbatim>\<open>str\<close>, a \<^verbatim>\<open>list\<close> or a \<^verbatim>\<open>dict\<close> with string keys. A dict is an association
  list read from the front, so its first entry for a key is the entry of the dict.
\<close>

datatype pyval =
    PNone
  | PBool bool
  | PInt int
  | PFloat rat
  | PStr string
  | PList "pyval list"
  | PDict "(string \<times> pyval) list"

datatype exn = TypeError | IndexError | KeyError

text \<open>
  \<^verbatim>\<open>obj.get(key)\<close> as the source calls it: \<^verbatim>\<open>key\<close> is a string or \<^verbatim>\<open>None\<close>, the
  default is \<^verbatim>\<open>None\<close>, and \<^term>\<open>map_of d\<close> is the dict as a map. No key of a dict
  of this model is \<^verbatim>\<open>None\<close>, so \<^verbatim>\<open>obj.get(None)\<close> is \<^verbatim>\<open>None\<close>.
\<close>

fun dict_get :: "(string \<times> pyval) list \<Rightarrow> string option \<Rightarrow> pyval" where
  "dict_get d None = PNone"
| "dict_get d (Some k) = (case map_of d k of None \<Rightarrow> PNone | Some v \<Rightarrow> v)"

subsection \<open>Python's comparisons on these values\<close>

text \<open>bool, int and float compare by numeric value (\<^verbatim>\<open>True == 1\<close>, \<^verbatim>\<open>1 == 1.0\<close>).\<close>

fun num_of :: "pyval \<Rightarrow> rat option" where
  "num_of (PBool b) = Some (if b then 1 else 0)"
| "num_of (PInt i) = Some (of_int i)"
| "num_of (PFloat q) = Some q"
| "num_of PNone = None"
| "num_of (PStr s) = None"
| "num_of (PList xs) = None"
| "num_of (PDict d) = None"

text \<open>
  \<^verbatim>\<open>a == b\<close>. Numbers by value, strings by their characters, lists by length and
  then element by element, dicts by size and then every entry of the left one looked
  up in the right one; values of unrelated types, and \<^verbatim>\<open>None\<close> against anything but
  \<^verbatim>\<open>None\<close>, are unequal. It never raises.
\<close>

function py_eq :: "pyval \<Rightarrow> pyval \<Rightarrow> bool" where
  "py_eq PNone b = (case b of PNone \<Rightarrow> True | _ \<Rightarrow> False)"
| "py_eq (PBool x) b = (case num_of b of Some q \<Rightarrow> (if x then 1 else 0) = q | None \<Rightarrow> False)"
| "py_eq (PInt i) b = (case num_of b of Some q \<Rightarrow> of_int i = q | None \<Rightarrow> False)"
| "py_eq (PFloat r) b = (case num_of b of Some q \<Rightarrow> r = q | None \<Rightarrow> False)"
| "py_eq (PStr s) b = (case b of PStr t \<Rightarrow> s = t | _ \<Rightarrow> False)"
| "py_eq (PList xs) b =
     (case b of
        PList ys \<Rightarrow> length xs = length ys \<and> list_all (\<lambda>(x, y). py_eq x y) (zip xs ys)
      | _ \<Rightarrow> False)"
| "py_eq (PDict d) b =
     (case b of
        PDict e \<Rightarrow> length d = length e \<and>
          list_all (\<lambda>(k, v). case map_of e k of None \<Rightarrow> False | Some w \<Rightarrow> py_eq v w) d
      | _ \<Rightarrow> False)"
  by pat_completeness auto
termination
proof (relation "measure (\<lambda>(a, b). size a)")
  show "wf (measure (\<lambda>(a, b). size a))" by simp
next
  fix xs b ys and z :: "pyval \<times> pyval" and x y
  assume "z \<in> set (zip xs ys)" and "(x, y) = z"
  then have "x \<in> set xs" by (auto dest: set_zip_leftD)
  then have "size x \<le> size_list size xs" by (rule size_list_estimation') simp
  then show "((x, y), PList xs, b) \<in> measure (\<lambda>(a, b). size a)" by simp
next
  fix d b e and z :: "string \<times> pyval" and k v and w :: pyval
  assume "z \<in> set d" and "(k, v) = z"
  then have "(k, v) \<in> set d" by simp
  then have "size_prod (\<lambda>_. 0) size (k, v) \<le> size_list (size_prod (\<lambda>_. 0) size) d"
    by (rule size_list_estimation') simp
  then show "((v, w), PDict d, b) \<in> measure (\<lambda>(a, b). size a)" by simp
qed

text \<open>
  The first position at which two lists hold unequal elements, as the list comparison
  of CPython searches it before it applies the operator.
\<close>

fun first_diff :: "pyval list \<Rightarrow> pyval list \<Rightarrow> (pyval \<times> pyval) option" where
  "first_diff (x # xs) (y # ys) = (if py_eq x y then first_diff xs ys else Some (x, y))"
| "first_diff [] ys = None"
| "first_diff xs [] = None"

text \<open>
  \<^verbatim>\<open>a != b\<close>, type by type as Python computes it: numbers and strings by value; lists
  by length, then by the search for a first unequal pair; dicts as the negation of
  dict equality; everything else by identity, which tells \<^verbatim>\<open>None\<close> from every other
  value and values of unrelated types from each other.
\<close>

fun py_ne :: "pyval \<Rightarrow> pyval \<Rightarrow> bool" where
  "py_ne PNone PNone = False"
| "py_ne (PStr s) (PStr t) = (s \<noteq> t)"
| "py_ne (PList xs) (PList ys) =
     (if length xs \<noteq> length ys then True
      else (case first_diff xs ys of None \<Rightarrow> False | Some p \<Rightarrow> True))"
| "py_ne (PDict d) (PDict e) = (\<not> py_eq (PDict d) (PDict e))"
| "py_ne a b =
     (case (num_of a, num_of b) of (Some q, Some r) \<Rightarrow> q \<noteq> r | _ \<Rightarrow> True)"

text \<open>The four ordering operators, on any linearly ordered carrier.\<close>

datatype ordop = OGt | OLt | OGe | OLe

fun ord_holds :: "ordop \<Rightarrow> 'a::linorder \<Rightarrow> 'a \<Rightarrow> bool" where
  "ord_holds OGt x y = (x > y)"
| "ord_holds OLt x y = (x < y)"
| "ord_holds OGe x y = (x \<ge> y)"
| "ord_holds OLe x y = (x \<le> y)"

text \<open>
  \<^verbatim>\<open>a > b\<close>, \<^verbatim>\<open>a < b\<close>, \<^verbatim>\<open>a >= b\<close>, \<^verbatim>\<open>a <= b\<close>. Numbers are ordered by value, strings
  lexicographically by code point, lists by their first unequal pair of elements (by
  length when there is none); every other pairing, \<^verbatim>\<open>None\<close> and dicts included,
  raises \<^verbatim>\<open>TypeError\<close>.
\<close>

function py_order :: "ordop \<Rightarrow> pyval \<Rightarrow> pyval \<Rightarrow> exn + bool" where
  "py_order op (PStr s) b = (case b of PStr t \<Rightarrow> Inr (ord_holds op s t) | _ \<Rightarrow> Inl TypeError)"
| "py_order op (PList xs) b =
     (case b of
        PList ys \<Rightarrow>
          (case first_diff xs ys of
             None \<Rightarrow> Inr (ord_holds op (length xs) (length ys))
           | Some (x, y) \<Rightarrow> py_order op x y)
      | _ \<Rightarrow> Inl TypeError)"
| "py_order op PNone b = Inl TypeError"
| "py_order op (PDict d) b = Inl TypeError"
| "py_order op (PBool x) b =
     (case num_of b of Some r \<Rightarrow> Inr (ord_holds op (if x then 1 else 0) r) | None \<Rightarrow> Inl TypeError)"
| "py_order op (PInt i) b =
     (case num_of b of Some r \<Rightarrow> Inr (ord_holds op (of_int i) r) | None \<Rightarrow> Inl TypeError)"
| "py_order op (PFloat q) b =
     (case num_of b of Some r \<Rightarrow> Inr (ord_holds op q r) | None \<Rightarrow> Inl TypeError)"
  by pat_completeness auto
termination
proof (relation "measure (\<lambda>(op, a, b). size a)")
  show "wf (measure (\<lambda>(op, a, b). size a))" by simp
next
  fix op :: ordop and xs b ys and p :: "pyval \<times> pyval" and x y
  assume "first_diff xs ys = Some p" and "(x, y) = p"
  then have "first_diff xs ys = Some (x, y)" by simp
  then have "x \<in> set xs"
    by (induction xs ys rule: first_diff.induct) (auto split: if_splits)
  then have "size x \<le> size_list size xs" by (rule size_list_estimation') simp
  then show "((op, x, y), op, PList xs, b) \<in> measure (\<lambda>(op, a, b). size a)" by simp
qed

text \<open>\<^verbatim>\<open>if result:\<close> tests the truth value of \<^verbatim>\<open>result\<close>.\<close>

fun truthy :: "pyval \<Rightarrow> bool" where
  "truthy PNone = False"
| "truthy (PBool b) = b"
| "truthy (PInt i) = (i \<noteq> 0)"
| "truthy (PFloat q) = (q \<noteq> 0)"
| "truthy (PStr s) = (s \<noteq> [])"
| "truthy (PList xs) = (xs \<noteq> [])"
| "truthy (PDict d) = (d \<noteq> [])"

subsection \<open>The block\<close>

datatype ComparisonOperator =
    EQUAL
  | NOT_EQUAL
  | GREATER_THAN
  | LESS_THAN
  | GREATER_THAN_OR_EQUAL
  | LESS_THAN_OR_EQUAL

text \<open>
  \<^verbatim>\<open>ConditionBlock.Input\<close>. The keys and indices default to \<^verbatim>\<open>None\<close>;
  \<^verbatim>\<open>yes_value\<close> and \<^verbatim>\<open>no_value\<close> are values, \<^verbatim>\<open>None\<close> by default.
\<close>

record Input =
  input_object :: pyval
  value1_key :: "string option"
  value2_key :: "string option"
  value1_index :: "int option"
  value2_index :: "int option"
  operator :: ComparisonOperator
  yes_value :: pyval
  no_value :: pyval
  passthrough :: bool

text \<open>
  The local function \<^verbatim>\<open>get_value(obj, key, index)\<close>. On a list with no usable index
  and a key, \<^verbatim>\<open>obj[0]\<close> is evaluated, which raises \<^verbatim>\<open>IndexError\<close> on the empty list.
  A list with neither reaches the final \<^verbatim>\<open>return obj\<close>, as every scalar does.
\<close>

fun get_value :: "pyval \<Rightarrow> string option \<Rightarrow> int option \<Rightarrow> exn + pyval" where
  "get_value (PDict d) key index = Inr (dict_get d key)"
| "get_value (PList xs) key index =
     (if (case index of None \<Rightarrow> False | Some i \<Rightarrow> 0 \<le> i \<and> i < int (length xs))
      then Inr (xs ! nat (the index))
      else if key \<noteq> None then
        (case xs of
           [] \<Rightarrow> Inl IndexError
         | x # rest \<Rightarrow> (case x of PDict d \<Rightarrow> Inr (dict_get d key) | _ \<Rightarrow> Inr PNone))
      else Inr (PList xs))"
| "get_value obj key index = Inr obj"

text \<open>
  The dict \<^verbatim>\<open>comparison_funcs\<close>, from operator to lambda. A lambda returns the Python
  bool of the comparison or raises.
\<close>

definition order_lambda :: "ordop \<Rightarrow> pyval \<Rightarrow> pyval \<Rightarrow> exn + pyval" where
  "order_lambda op a b = (case py_order op a b of Inl e \<Rightarrow> Inl e | Inr r \<Rightarrow> Inr (PBool r))"

definition comparison_funcs ::
  "ComparisonOperator \<rightharpoonup> (pyval \<Rightarrow> pyval \<Rightarrow> exn + pyval)" where
  "comparison_funcs =
     [EQUAL \<mapsto> (\<lambda>a b. Inr (PBool (py_eq a b))),
      NOT_EQUAL \<mapsto> (\<lambda>a b. Inr (PBool (py_ne a b))),
      GREATER_THAN \<mapsto> order_lambda OGt,
      LESS_THAN \<mapsto> order_lambda OLt,
      GREATER_THAN_OR_EQUAL \<mapsto> order_lambda OGe,
      LESS_THAN_OR_EQUAL \<mapsto> order_lambda OLe]"

text \<open>\<^verbatim>\<open>comparison_funcs[operator](value1, value2)\<close>: a missing entry is a \<^verbatim>\<open>KeyError\<close>.\<close>

definition apply_comparison :: "ComparisonOperator \<Rightarrow> pyval \<Rightarrow> pyval \<Rightarrow> exn + pyval" where
  "apply_comparison op value1 value2 =
     (case comparison_funcs op of None \<Rightarrow> Inl KeyError | Some f \<Rightarrow> f value1 value2)"

text \<open>
  The body of the \<^verbatim>\<open>try\<close>: the pairs yielded so far, and the exception that ended
  it, if one did.
\<close>

definition try_body ::
  "Input \<Rightarrow> pyval \<Rightarrow> pyval \<Rightarrow> (string \<times> pyval) list \<times> exn option" where
  "try_body input_data value1 value2 =
     (case apply_comparison (operator input_data) value1 value2 of
        Inl e \<Rightarrow> ([], Some e)
      | Inr result \<Rightarrow>
          (let output =
             (if truthy result then
                (if passthrough input_data then input_object input_data
                 else if yes_value input_data \<noteq> PNone then yes_value input_data else value1)
              else
                (if passthrough input_data then input_object input_data
                 else if no_value input_data \<noteq> PNone then no_value input_data else value1))
           in ([(''result'', result), (''output'', output)], None)))"

text \<open>
  \<^verbatim>\<open>run\<close>: both operands are extracted before the \<^verbatim>\<open>try\<close>, so an exception of
  \<^verbatim>\<open>get_value\<close> leaves the generator; \<^verbatim>\<open>except Exception\<close> adds the two \<^verbatim>\<open>None\<close>
  pairs to whatever the \<^verbatim>\<open>try\<close> had yielded.
\<close>

definition operands :: "Input \<Rightarrow> exn + (pyval \<times> pyval)" where
  "operands input_data =
     (let input_object = input_object input_data;
          is_list = (case input_object of PList xs \<Rightarrow> True | _ \<Rightarrow> False);
          r1 = (if is_list
                then get_value input_object (value1_key input_data) (value1_index input_data)
                else get_value input_object (value1_key input_data) None)
      in case r1 of
           Inl e \<Rightarrow> Inl e
         | Inr value1 \<Rightarrow>
             (case (if is_list
                    then get_value input_object (value2_key input_data) (value2_index input_data)
                    else get_value input_object (value2_key input_data) None) of
                Inl e \<Rightarrow> Inl e
              | Inr value2 \<Rightarrow> Inr (value1, value2)))"

definition run :: "Input \<Rightarrow> exn + (string \<times> pyval) list" where
  "run input_data =
     (case operands input_data of
        Inl e \<Rightarrow> Inl e
      | Inr (value1, value2) \<Rightarrow>
          (case try_body input_data value1 value2 of
             (yielded, None) \<Rightarrow> Inr yielded
           | (yielded, Some e) \<Rightarrow> Inr (yielded @ [(''result'', PNone), (''output'', PNone)])))"

text \<open>The \<^verbatim>\<open>test_input\<close> that the block declares for itself.\<close>

definition test_input :: Input where
  "test_input =
     \<lparr>input_object = PDict [(''value1'', PInt 10), (''value2'', PInt 5)],
      value1_key = Some ''value1'', value2_key = Some ''value2'',
      value1_index = None, value2_index = None,
      operator = GREATER_THAN,
      yes_value = PStr ''Greater'', no_value = PStr ''Not greater'',
      passthrough = False\<rparr>"

section \<open>Properties\<close>

subsection \<open>Auxiliary facts\<close>

lemma first_diff_None_iff:
  "length xs = length ys \<Longrightarrow>
   (first_diff xs ys = None) = list_all (\<lambda>(x, y). py_eq x y) (zip xs ys)"
  by (induction xs ys rule: list_induct2) auto

lemma py_ne_list:
  "py_ne (PList xs) (PList ys) = (\<not> py_eq (PList xs) (PList ys))"
proof (cases "length xs = length ys")
  case True
  from first_diff_None_iff [OF True] True show ?thesis
    by (auto split: option.splits)
next
  case False
  then show ?thesis by simp
qed

lemma py_ne_not_py_eq: "py_ne a b = (\<not> py_eq a b)"
proof (cases a)
  case (PList xs)
  then show ?thesis by (cases b) (simp_all only: py_ne_list, simp_all)
qed (cases b; simp)+

lemma py_eq_None_left: "py_eq PNone b = (b = PNone)"
  by (cases b) auto

lemma py_eq_None_right: "py_eq a PNone = (a = PNone)"
  by (cases a) auto

lemma apply_comparison_simps:
  "apply_comparison EQUAL a b = Inr (PBool (py_eq a b))"
  "apply_comparison NOT_EQUAL a b = Inr (PBool (py_ne a b))"
  "apply_comparison GREATER_THAN a b = order_lambda OGt a b"
  "apply_comparison LESS_THAN a b = order_lambda OLt a b"
  "apply_comparison GREATER_THAN_OR_EQUAL a b = order_lambda OGe a b"
  "apply_comparison LESS_THAN_OR_EQUAL a b = order_lambda OLe a b"
  by (simp_all add: apply_comparison_def comparison_funcs_def)

lemma py_order_error: "py_order op a b = Inl e \<Longrightarrow> e = TypeError"
  by (induction op a b rule: py_order.induct)
     (auto split: pyval.splits option.splits)

lemma apply_comparison_bool:
  "apply_comparison op a b = Inr res \<Longrightarrow> \<exists>t. res = PBool t"
  by (cases op) (auto simp: apply_comparison_simps order_lambda_def split: sum.splits)

lemma apply_comparison_error:
  "apply_comparison op a b = Inl e \<Longrightarrow> e = TypeError"
  by (cases op)
     (auto simp: apply_comparison_simps order_lambda_def split: sum.splits dest: py_order_error)

lemma order_None_right: "py_order op a PNone = Inl TypeError"
  by (cases a) auto

lemma run_success:
  "operands r = Inr (v1, v2) \<Longrightarrow> apply_comparison (operator r) v1 v2 = Inr res \<Longrightarrow>
   run r = Inr [(''result'', res),
     (''output'',
       if passthrough r then input_object r
       else if truthy res then (if yes_value r \<noteq> PNone then yes_value r else v1)
       else (if no_value r \<noteq> PNone then no_value r else v1))]"
  by (simp add: run_def try_body_def)

lemma run_failure:
  "operands r = Inr (v1, v2) \<Longrightarrow> apply_comparison (operator r) v1 v2 = Inl e \<Longrightarrow>
   run r = Inr [(''result'', PNone), (''output'', PNone)]"
  by (simp add: run_def try_body_def)

lemma get_value_raises_iff:
  "get_value obj key index = Inl e \<longleftrightarrow> obj = PList [] \<and> key \<noteq> None \<and> e = IndexError"
  by (cases obj) (auto split: option.splits list.splits pyval.splits)

lemma run_two_outcomes:
  assumes "operands r = Inr (v1, v2)"
  shows "(\<exists>t out. run r = Inr [(''result'', PBool t), (''output'', out)]) \<or>
         run r = Inr [(''result'', PNone), (''output'', PNone)]"
proof (cases "apply_comparison (operator r) v1 v2")
  case (Inl e)
  with assms show ?thesis by (simp add: run_failure)
next
  case (Inr res)
  from apply_comparison_bool [OF Inr] obtain t where "res = PBool t" ..
  with run_success [OF assms Inr] show ?thesis by blast
qed

subsection \<open>Extraction\<close>

text \<open>
  C2, as the code has it. For every mapping input, \<^verbatim>\<open>get_value\<close> returns the value
  stored under the key when the key is present in the mapping; when the key is absent
  (not provided, or not a key of the mapping) it returns \<^verbatim>\<open>None\<close>, the null marker,
  and not the mapping. The index plays no part.
\<close>

theorem get_value_mapping:
  "(map_of d k = Some v \<longrightarrow> get_value (PDict d) (Some k) index = Inr v) \<and>
   (map_of d k = None \<longrightarrow> get_value (PDict d) (Some k) index = Inr PNone) \<and>
   get_value (PDict d) None index = Inr PNone"
  by simp

theorem get_value_mapping_witness:
  "get_value (PDict [(''a'', PInt 1)]) (Some ''a'') None = Inr (PInt 1) \<and>
   get_value (PDict [(''a'', PInt 1)]) (Some ''b'') None = Inr PNone \<and>
   get_value (PDict [(''a'', PInt 1)]) None None = Inr PNone"
  using get_value_mapping [of "[(''a'', PInt 1)]" "''a''" "PInt 1" None]
    get_value_mapping [of "[(''a'', PInt 1)]" "''b''" "PInt 1" None]
  by simp

text \<open>
  C2 as the specification words it fails: with the key \<^verbatim>\<open>"b"\<close> absent from
  \<^verbatim>\<open>{"a": 1}\<close> the operand is \<^verbatim>\<open>None\<close>, not the mapping.
\<close>

theorem get_value_mapping_absent_key_counterexample:
  "get_value (PDict [(''a'', PInt 1)]) (Some ''b'') None = Inr PNone \<and>
   get_value (PDict [(''a'', PInt 1)]) (Some ''b'') None \<noteq> Inr (PDict [(''a'', PInt 1)])"
  by simp

text \<open>
  C3, as the code has it. For every sequence input whose index is absent or outside
  \<open>[0, length)\<close> and whose key is absent, \<^verbatim>\<open>get_value\<close> returns the sequence itself,
  unchanged; it raises nothing and the operand is not the null marker.
\<close>

theorem get_value_sequence_unaddressed:
  "(case index of None \<Rightarrow> True | Some i \<Rightarrow> i < 0 \<or> int (length xs) \<le> i) \<Longrightarrow>
   get_value (PList xs) None index = Inr (PList xs) \<and>
   get_value (PList xs) None index \<noteq> Inr PNone"
  by (auto split: option.splits)

theorem get_value_sequence_unaddressed_witness:
  "(case Some (7::int) of None \<Rightarrow> True
      | Some i \<Rightarrow> i < 0 \<or> int (length [PInt 1, PInt 2]) \<le> i) \<and>
   get_value (PList [PInt 1, PInt 2]) None (Some 7) = Inr (PList [PInt 1, PInt 2]) \<and>
   get_value (PList [PInt 1, PInt 2]) None (Some 7) \<noteq> Inr PNone"
proof -
  have h: "case Some (7::int) of None \<Rightarrow> True
      | Some i \<Rightarrow> i < 0 \<or> int (length [PInt 1, PInt 2]) \<le> i"
    by simp
  from h get_value_sequence_unaddressed [OF h] show ?thesis by blast
qed

text \<open>
  C3 as the specification words it fails: the list \<^verbatim>\<open>[1]\<close> with no index and no key
  is its own operand.
\<close>

theorem get_value_sequence_unaddressed_counterexample:
  "get_value (PList [PInt 1]) None None = Inr (PList [PInt 1]) \<and>
   get_value (PList [PInt 1]) None None \<noteq> Inr PNone"
  by simp

text \<open>
  C10. For every mapping and key \<open>k\<close>, extraction from a mapping that stores \<^verbatim>\<open>None\<close>
  under \<open>k\<close> and extraction from a mapping without \<open>k\<close> give the same operand, the
  null marker; so the comparison receives the same operand, and two requests that
  differ only in this (same second operand, no passthrough) yield the same pairs.
\<close>

theorem stored_none_like_absent_key:
  "map_of d k = Some PNone \<Longrightarrow> map_of e k = None \<Longrightarrow>
   get_value (PDict d) (Some k) i = Inr PNone \<and>
   get_value (PDict e) (Some k) j = Inr PNone \<and>
   apply_comparison op (dict_get d (Some k)) b = apply_comparison op (dict_get e (Some k)) b \<and>
   (dict_get d key2 = dict_get e key2 \<longrightarrow>
      run \<lparr>input_object = PDict d, value1_key = Some k, value2_key = key2,
           value1_index = i, value2_index = j, operator = op,
           yes_value = y, no_value = n, passthrough = False\<rparr> =
      run \<lparr>input_object = PDict e, value1_key = Some k, value2_key = key2,
           value1_index = i, value2_index = j, operator = op,
           yes_value = y, no_value = n, passthrough = False\<rparr>)"
  by (auto simp: run_def operands_def try_body_def Let_def split: sum.splits)

theorem stored_none_like_absent_key_witness:
  "map_of [(''a'', PNone), (''b'', PInt 1)] ''a'' = Some PNone \<and>
   map_of [(''b'', PInt 1)] ''a'' = None \<and>
   get_value (PDict [(''a'', PNone), (''b'', PInt 1)]) (Some ''a'') None = Inr PNone \<and>
   get_value (PDict [(''b'', PInt 1)]) (Some ''a'') None = Inr PNone \<and>
   run \<lparr>input_object = PDict [(''a'', PNone), (''b'', PInt 1)], value1_key = Some ''a'',
        value2_key = Some ''b'', value1_index = None, value2_index = None,
        operator = EQUAL, yes_value = PNone, no_value = PNone, passthrough = False\<rparr> =
   run \<lparr>input_object = PDict [(''b'', PInt 1)], value1_key = Some ''a'',
        value2_key = Some ''b'', value1_index = None, value2_index = None,
        operator = EQUAL, yes_value = PNone, no_value = PNone, passthrough = False\<rparr>"
proof -
  have h1: "map_of [(''a'', PNone), (''b'', PInt 1)] ''a'' = Some PNone" by simp
  have h2: "map_of [(''b'', PInt 1)] ''a'' = None" by simp
  have h3: "dict_get [(''a'', PNone), (''b'', PInt 1)] (Some ''b'') =
            dict_get [(''b'', PInt 1)] (Some ''b'')" by simp
  from stored_none_like_absent_key [OF h1 h2, of None None EQUAL PNone "Some ''b''" PNone PNone]
    h1 h2 h3
  show ?thesis by blast
qed

subsection \<open>Evaluation\<close>

text \<open>
  C1 at the input on which the code departs from it: the empty list with a key for the
  first operand and no index. \<^verbatim>\<open>get_value\<close> evaluates \<^verbatim>\<open>obj[0]\<close> outside the
  \<^verbatim>\<open>try\<close>, and the \<^verbatim>\<open>IndexError\<close> leaves \<^verbatim>\<open>run\<close> with nothing yielded.
\<close>

theorem run_empty_list_with_key_raises:
  "run \<lparr>input_object = PList [], value1_key = Some ''a'', value2_key = None,
        value1_index = None, value2_index = None, operator = EQUAL,
        yes_value = PNone, no_value = PNone, passthrough = False\<rparr> = Inl IndexError"
  by (simp add: run_def operands_def)

text \<open>
  C4. Whenever the comparison of the two extracted operands raises, \<^verbatim>\<open>run\<close> yields
  \<^verbatim>\<open>("result", None)\<close> and then \<^verbatim>\<open>("output", None)\<close>, and no exception leaves it. An
  ordering operator raises whenever an operand is \<^verbatim>\<open>None\<close>; Scenario E (input
  \<^verbatim>\<open>{"a": "x"}\<close>, keys \<^verbatim>\<open>"a"\<close> and \<^verbatim>\<open>"missing"\<close>, \<^verbatim>\<open>GREATER_THAN\<close>) is such a request.
\<close>

theorem comparison_failure_yields_none_pair:
  "(operands r = Inr (v1, v2) \<and> apply_comparison (operator r) v1 v2 = Inl e \<longrightarrow>
      run r = Inr [(''result'', PNone), (''output'', PNone)]) \<and>
   (op \<noteq> EQUAL \<and> op \<noteq> NOT_EQUAL \<longrightarrow>
      apply_comparison op a PNone = Inl TypeError \<and>
      apply_comparison op PNone b = Inl TypeError) \<and>
   run \<lparr>input_object = PDict [(''a'', PStr ''x'')], value1_key = Some ''a'',
        value2_key = Some ''missing'', value1_index = None, value2_index = None,
        operator = GREATER_THAN, yes_value = y, no_value = n, passthrough = p\<rparr> =
     Inr [(''result'', PNone), (''output'', PNone)]"
proof (intro conjI impI)
  assume "operands r = Inr (v1, v2) \<and> apply_comparison (operator r) v1 v2 = Inl e"
  then show "run r = Inr [(''result'', PNone), (''output'', PNone)]"
    by (auto intro: run_failure)
next
  assume "op \<noteq> EQUAL \<and> op \<noteq> NOT_EQUAL"
  then show "apply_comparison op a PNone = Inl TypeError"
    by (cases op) (simp_all add: apply_comparison_simps order_lambda_def order_None_right)
next
  assume "op \<noteq> EQUAL \<and> op \<noteq> NOT_EQUAL"
  then show "apply_comparison op PNone b = Inl TypeError"
    by (cases op) (simp_all add: apply_comparison_simps order_lambda_def)
next
  show "run \<lparr>input_object = PDict [(''a'', PStr ''x'')], value1_key = Some ''a'',
        value2_key = Some ''missing'', value1_index = None, value2_index = None,
        operator = GREATER_THAN, yes_value = y, no_value = n, passthrough = p\<rparr> =
     Inr [(''result'', PNone), (''output'', PNone)]"
    by (simp add: run_def operands_def try_body_def apply_comparison_simps order_lambda_def)
qed

theorem comparison_failure_yields_none_pair_witness:
  "operands (test_input\<lparr>input_object := PNone, operator := LESS_THAN\<rparr>) =
     Inr (PNone, PNone) \<and>
   apply_comparison LESS_THAN PNone PNone = Inl TypeError \<and>
   run (test_input\<lparr>input_object := PNone, operator := LESS_THAN\<rparr>) =
     Inr [(''result'', PNone), (''output'', PNone)]"
proof -
  let ?r = "test_input\<lparr>input_object := PNone, operator := LESS_THAN\<rparr>"
  have ops: "operands ?r = Inr (PNone, PNone)"
    by (simp add: operands_def test_input_def)
  have ne: "LESS_THAN \<noteq> EQUAL \<and> LESS_THAN \<noteq> NOT_EQUAL" by simp
  have cmp: "apply_comparison LESS_THAN PNone PNone = Inl TypeError"
    using comparison_failure_yields_none_pair [of ?r PNone PNone TypeError LESS_THAN PNone PNone] ne
    by blast
  have "apply_comparison (operator ?r) PNone PNone = Inl TypeError"
    using cmp by simp
  with ops have "run ?r = Inr [(''result'', PNone), (''output'', PNone)]"
    using comparison_failure_yields_none_pair [of ?r PNone PNone TypeError LESS_THAN PNone PNone]
    by blast
  then show ?thesis using ops cmp by simp
qed

text \<open>
  C5. For every request with \<^verbatim>\<open>passthrough\<close> set whose operands are extracted and whose
  comparison returns, the output pair carries the whole \<^verbatim>\<open>input_object\<close>, whatever
  the boolean; \<^verbatim>\<open>yes_value\<close> and \<^verbatim>\<open>no_value\<close> do not matter.
\<close>

theorem passthrough_outputs_input_object:
  "passthrough r \<Longrightarrow> operands r = Inr (v1, v2) \<Longrightarrow>
   apply_comparison (operator r) v1 v2 = Inr res \<Longrightarrow>
   run r = Inr [(''result'', res), (''output'', input_object r)] \<and>
   run (r\<lparr>yes_value := y, no_value := n\<rparr>) = run r"
proof -
  assume p: "passthrough r" and ops: "operands r = Inr (v1, v2)"
    and cmp: "apply_comparison (operator r) v1 v2 = Inr res"
  let ?r' = "r\<lparr>yes_value := y, no_value := n\<rparr>"
  have 1: "run r = Inr [(''result'', res), (''output'', input_object r)]"
    using run_success [OF ops cmp] p by simp
  have "operands ?r' = operands r"
    by (simp add: operands_def Let_def cong: sum.case_cong if_cong)
  with ops have "operands ?r' = Inr (v1, v2)" by simp
  moreover have "apply_comparison (operator ?r') v1 v2 = Inr res" using cmp by simp
  ultimately have "run ?r' = Inr [(''result'', res), (''output'', input_object r)]"
    using run_success [of ?r' v1 v2 res] p by simp
  with 1 show ?thesis by simp
qed

text \<open>Scenario F: the block's own test input with \<^verbatim>\<open>passthrough\<close> set.\<close>

theorem passthrough_outputs_input_object_witness:
  "passthrough (test_input\<lparr>passthrough := True\<rparr>) \<and>
   operands (test_input\<lparr>passthrough := True\<rparr>) = Inr (PInt 10, PInt 5) \<and>
   apply_comparison (operator (test_input\<lparr>passthrough := True\<rparr>)) (PInt 10) (PInt 5) =
     Inr (PBool True) \<and>
   run (test_input\<lparr>passthrough := True\<rparr>) =
     Inr [(''result'', PBool True),
          (''output'', PDict [(''value1'', PInt 10), (''value2'', PInt 5)])]"
proof -
  let ?r = "test_input\<lparr>passthrough := True\<rparr>"
  have p: "passthrough ?r" by simp
  have ops: "operands ?r = Inr (PInt 10, PInt 5)"
    by (simp add: operands_def test_input_def)
  have cmp: "apply_comparison (operator ?r) (PInt 10) (PInt 5) = Inr (PBool True)"
    by (simp add: test_input_def apply_comparison_simps order_lambda_def)
  from passthrough_outputs_input_object [OF p ops cmp] p ops cmp
  show ?thesis by (simp add: test_input_def)
qed

text \<open>
  C6. For every request without \<^verbatim>\<open>passthrough\<close> whose operands are extracted and whose
  comparison returns: on \<^verbatim>\<open>True\<close> the output is \<^verbatim>\<open>yes_value\<close> when that is not
  \<^verbatim>\<open>None\<close> and otherwise \<^verbatim>\<open>value1\<close>, the first operand and not the whole input; on
  \<^verbatim>\<open>False\<close> it is \<^verbatim>\<open>no_value\<close> when that is not \<^verbatim>\<open>None\<close> and otherwise
  \<^verbatim>\<open>value1\<close>. (A comparison that returns, returns a bool.)
\<close>

theorem output_selection_without_passthrough:
  "\<not> passthrough r \<Longrightarrow> operands r = Inr (v1, v2) \<Longrightarrow>
   apply_comparison (operator r) v1 v2 = Inr res \<Longrightarrow>
   (\<exists>t. res = PBool t \<and>
      run r = Inr [(''result'', PBool t),
        (''output'',
          if t then (if yes_value r \<noteq> PNone then yes_value r else v1)
          else (if no_value r \<noteq> PNone then no_value r else v1))])"
proof -
  assume np: "\<not> passthrough r" and ops: "operands r = Inr (v1, v2)"
    and cmp: "apply_comparison (operator r) v1 v2 = Inr res"
  from apply_comparison_bool [OF cmp] obtain t where t: "res = PBool t" ..
  from run_success [OF ops cmp] np t show ?thesis by simp
qed

text \<open>
  Scenario C: \<^verbatim>\<open>[{"v": 1}, {"v": 2}]\<close>, indices 0 and 1, \<^verbatim>\<open>EQUAL\<close>, no overrides; the
  result is \<^verbatim>\<open>False\<close> and the output is the first operand \<^verbatim>\<open>{"v": 1}\<close>.
\<close>

theorem output_selection_without_passthrough_witness:
  "\<not> passthrough
       \<lparr>input_object = PList [PDict [(''v'', PInt 1)], PDict [(''v'', PInt 2)]],
        value1_key = None, value2_key = None, value1_index = Some 0, value2_index = Some 1,
        operator = EQUAL, yes_value = PNone, no_value = PNone, passthrough = False\<rparr> \<and>
   operands
       \<lparr>input_object = PList [PDict [(''v'', PInt 1)], PDict [(''v'', PInt 2)]],
        value1_key = None, value2_key = None, value1_index = Some 0, value2_index = Some 1,
        operator = EQUAL, yes_value = PNone, no_value = PNone, passthrough = False\<rparr> =
     Inr (PDict [(''v'', PInt 1)], PDict [(''v'', PInt 2)]) \<and>
   apply_comparison EQUAL (PDict [(''v'', PInt 1)]) (PDict [(''v'', PInt 2)]) =
     Inr (PBool False) \<and>
   run \<lparr>input_object = PList [PDict [(''v'', PInt 1)], PDict [(''v'', PInt 2)]],
        value1_key = None, value2_key = None, value1_index = Some 0, value2_index = Some 1,
        operator = EQUAL, yes_value = PNone, no_value = PNone, passthrough = False\<rparr> =
     Inr [(''result'', PBool False), (''output'', PDict [(''v'', PInt 1)])]"
proof -
  let ?r = "\<lparr>input_object = PList [PDict [(''v'', PInt 1)], PDict [(''v'', PInt 2)]],
        value1_key = None, value2_key = None, value1_index = Some 0, value2_index = Some 1,
        operator = EQUAL, yes_value = PNone, no_value = PNone, passthrough = False\<rparr>"
  have np: "\<not> passthrough ?r" by simp
  have ops: "operands ?r = Inr (PDict [(''v'', PInt 1)], PDict [(''v'', PInt 2)])"
    by (simp add: operands_def)
  have cmp: "apply_comparison EQUAL (PDict [(''v'', PInt 1)]) (PDict [(''v'', PInt 2)]) =
     Inr (PBool False)"
    by (simp add: apply_comparison_simps)
  then have cmp': "apply_comparison (operator ?r) (PDict [(''v'', PInt 1)])
      (PDict [(''v'', PInt 2)]) = Inr (PBool False)"
    by simp
  from output_selection_without_passthrough [OF np ops cmp']
  have "run ?r = Inr [(''result'', PBool False), (''output'', PDict [(''v'', PInt 1)])]"
    by auto
  with np ops cmp show ?thesis by blast
qed

text \<open>
  C7. An override that is falsy but not \<^verbatim>\<open>None\<close> (the empty string, zero, \<^verbatim>\<open>False\<close>,
  and also the empty list and dict) is the output on its outcome; only an override that
  is exactly \<^verbatim>\<open>None\<close> falls back to \<^verbatim>\<open>value1\<close>.
\<close>

theorem falsy_override_is_honoured:
  "\<not> passthrough r \<Longrightarrow> operands r = Inr (v1, v2) \<Longrightarrow>
   (apply_comparison (operator r) v1 v2 = Inr (PBool True) \<longrightarrow>
      (\<not> truthy (yes_value r) \<and> yes_value r \<noteq> PNone \<longrightarrow>
         run r = Inr [(''result'', PBool True), (''output'', yes_value r)]) \<and>
      (yes_value r = PNone \<longrightarrow>
         run r = Inr [(''result'', PBool True), (''output'', v1)])) \<and>
   (apply_comparison (operator r) v1 v2 = Inr (PBool False) \<longrightarrow>
      (\<not> truthy (no_value r) \<and> no_value r \<noteq> PNone \<longrightarrow>
         run r = Inr [(''result'', PBool False), (''output'', no_value r)]) \<and>
      (no_value r = PNone \<longrightarrow>
         run r = Inr [(''result'', PBool False), (''output'', v1)])) \<and>
   \<not> truthy (PStr []) \<and> \<not> truthy (PInt 0) \<and> \<not> truthy (PBool False)"
  by (auto dest: run_success)

theorem falsy_override_is_honoured_witness:
  "\<not> passthrough (test_input\<lparr>yes_value := PStr [], no_value := PInt 0\<rparr>) \<and>
   operands (test_input\<lparr>yes_value := PStr [], no_value := PInt 0\<rparr>) = Inr (PInt 10, PInt 5) \<and>
   run (test_input\<lparr>yes_value := PStr [], no_value := PInt 0\<rparr>) =
     Inr [(''result'', PBool True), (''output'', PStr [])] \<and>
   run (test_input\<lparr>yes_value := PStr [], no_value := PInt 0, operator := LESS_THAN\<rparr>) =
     Inr [(''result'', PBool False), (''output'', PInt 0)] \<and>
   run (test_input\<lparr>yes_value := PNone\<rparr>) =
     Inr [(''result'', PBool True), (''output'', PInt 10)]"
proof -
  let ?r1 = "test_input\<lparr>yes_value := PStr [], no_value := PInt 0\<rparr>"
  let ?r2 = "test_input\<lparr>yes_value := PStr [], no_value := PInt 0, operator := LESS_THAN\<rparr>"
  let ?r3 = "test_input\<lparr>yes_value := PNone\<rparr>"
  have np: "\<not> passthrough ?r1" "\<not> passthrough ?r2" "\<not> passthrough ?r3"
    by (simp_all add: test_input_def)
  have ops: "operands ?r1 = Inr (PInt 10, PInt 5)" "operands ?r2 = Inr (PInt 10, PInt 5)"
    "operands ?r3 = Inr (PInt 10, PInt 5)"
    by (simp_all add: operands_def test_input_def)
  have c1: "apply_comparison (operator ?r1) (PInt 10) (PInt 5) = Inr (PBool True)"
    by (simp add: test_input_def apply_comparison_simps order_lambda_def)
  have c2: "apply_comparison (operator ?r2) (PInt 10) (PInt 5) = Inr (PBool False)"
    by (simp add: test_input_def apply_comparison_simps order_lambda_def)
  have c3: "apply_comparison (operator ?r3) (PInt 10) (PInt 5) = Inr (PBool True)"
    by (simp add: test_input_def apply_comparison_simps order_lambda_def)
  have y1: "\<not> truthy (yes_value ?r1) \<and> yes_value ?r1 \<noteq> PNone" by simp
  have n2: "\<not> truthy (no_value ?r2) \<and> no_value ?r2 \<noteq> PNone" by simp
  have y3: "yes_value ?r3 = PNone" by simp
  have "run ?r1 = Inr [(''result'', PBool True), (''output'', yes_value ?r1)]"
    using falsy_override_is_honoured [OF np(1) ops(1)] c1 y1 by blast
  moreover have "run ?r2 = Inr [(''result'', PBool False), (''output'', no_value ?r2)]"
    using falsy_override_is_honoured [OF np(2) ops(2)] c2 n2 by blast
  moreover have "run ?r3 = Inr [(''result'', PBool True), (''output'', PInt 10)]"
    using falsy_override_is_honoured [OF np(3) ops(3)] c3 y3 by blast
  ultimately show ?thesis using np(1) ops(1) by simp
qed

subsection \<open>Comparison\<close>

text \<open>
  C8. For all operands \<open>a\<close> and \<open>b\<close>, \<^verbatim>\<open>NOT_EQUAL\<close> returns the negation of what
  \<^verbatim>\<open>EQUAL\<close> returns; neither raises, whatever the shapes of the values; \<^verbatim>\<open>None\<close> is
  equal to itself and to nothing else.
\<close>

theorem not_equal_negates_equal:
  "apply_comparison EQUAL a b = Inr (PBool (py_eq a b)) \<and>
   apply_comparison NOT_EQUAL a b = Inr (PBool (\<not> py_eq a b)) \<and>
   py_eq PNone PNone \<and>
   py_eq PNone b = (b = PNone) \<and>
   py_eq a PNone = (a = PNone)"
proof (intro conjI)
  show "apply_comparison EQUAL a b = Inr (PBool (py_eq a b))"
    by (rule apply_comparison_simps)
  show "apply_comparison NOT_EQUAL a b = Inr (PBool (\<not> py_eq a b))"
    by (simp only: apply_comparison_simps py_ne_not_py_eq)
  show "py_eq PNone PNone" by simp
  show "py_eq PNone b = (b = PNone)" by (rule py_eq_None_left)
  show "py_eq a PNone = (a = PNone)" by (rule py_eq_None_right)
qed

text \<open>
  C9. \<^verbatim>\<open>comparison_funcs\<close> has an entry for each of the six operators, so the lookup
  \<^verbatim>\<open>comparison_funcs[operator]\<close> never raises; an exception inside the \<^verbatim>\<open>try\<close> is
  the exception of the looked-up lambda applied to the two operands, and never a
  \<^verbatim>\<open>KeyError\<close>.
\<close>

theorem dispatch_is_total:
  "comparison_funcs op \<noteq> None \<and>
   dom comparison_funcs = UNIV \<and>
   (try_body r v1 v2 = (ys, Some e) \<longrightarrow>
      e \<noteq> KeyError \<and> ys = [] \<and>
      (\<exists>f. comparison_funcs (operator r) = Some f \<and> f v1 v2 = Inl e))"
proof (intro conjI impI)
  show total: "\<And>op. comparison_funcs op \<noteq> None"
    subgoal for op by (cases op) (simp_all add: comparison_funcs_def)
    done
  then show "dom comparison_funcs = UNIV" by (auto simp: dom_def)
  assume tb: "try_body r v1 v2 = (ys, Some e)"
  then have cmp: "apply_comparison (operator r) v1 v2 = Inl e" and ys: "ys = []"
    by (auto simp: try_body_def Let_def split: sum.splits)
  from ys show "ys = []" .
  from apply_comparison_error [OF cmp] show "e \<noteq> KeyError" by simp
  from total [of "operator r"] obtain f where f: "comparison_funcs (operator r) = Some f"
    by auto
  with cmp have "f v1 v2 = Inl e" by (simp add: apply_comparison_def)
  with f show "\<exists>f. comparison_funcs (operator r) = Some f \<and> f v1 v2 = Inl e" by blast
qed

theorem dispatch_is_total_witness:
  "try_body (test_input\<lparr>operator := LESS_THAN\<rparr>) PNone (PInt 1) = ([], Some TypeError) \<and>
   TypeError \<noteq> KeyError \<and>
   (\<exists>f. comparison_funcs LESS_THAN = Some f \<and> f PNone (PInt 1) = Inl TypeError)"
proof -
  have tb: "try_body (test_input\<lparr>operator := LESS_THAN\<rparr>) PNone (PInt 1) = ([], Some TypeError)"
    by (simp add: try_body_def apply_comparison_simps order_lambda_def)
  from dispatch_is_total [of LESS_THAN "test_input\<lparr>operator := LESS_THAN\<rparr>" PNone "PInt 1"
      "[]" TypeError] tb
  show ?thesis by simp
qed

end
